theory Spec2Isabelle
  imports Complex_Main
begin

section \<open>Errors and results\<close>

text \<open>
  The exceptions the module can raise.  Python's \<open>RuntimeError\<close> is split by what torch
  complains about: a dimension name that is missing or does not match (\<open>NameError\<close>), and
  sizes that do not fit a matrix product, a broadcast or a concatenation
  (\<open>ShapeMismatch\<close>), and a reduction of a tensor without elements
  (\<open>EmptyTensorError\<close>).
\<close>

datatype error =
    AssertionError
  | ValueError
  | TypeError
  | IndexError
  | ZeroDivisionError
  | NameError
  | ShapeMismatch
  | EmptyTensorError

definition and_then :: "error + 'a \<Rightarrow> ('a \<Rightarrow> error + 'b) \<Rightarrow> error + 'b" where
  "and_then r f = (case r of Inl e \<Rightarrow> Inl e | Inr v \<Rightarrow> f v)"

section \<open>Tensors\<close>

text \<open>
  A tensor is its dimension names (\<open>None\<close> for an unnamed dimension), its shape and its
  elements in row-major order.  Sizes are natural numbers.  Numbers are real numbers:
  float32 rounding is not modelled.
\<close>

record 'a tensor =
  names :: "string option list"
  shape :: "nat list"
  data :: "'a list"

definition wf_tensor :: "'a tensor \<Rightarrow> bool" where
  "wf_tensor t \<longleftrightarrow>
     length (names t) = length (shape t) \<and> length (data t) = prod_list (shape t)"

definition dim :: "'a tensor \<Rightarrow> nat" where
  "dim t = length (shape t)"

fun name_index :: "string \<Rightarrow> string option list \<Rightarrow> nat option" where
  "name_index n [] = None"
| "name_index n (x # xs) =
     (if x = Some n then Some 0 else map_option Suc (name_index n xs))"

text \<open>\<open>x.size("C")\<close>: the size of the dimension of that name.\<close>

definition size_named :: "'a tensor \<Rightarrow> string \<Rightarrow> error + nat" where
  "size_named t n =
     (case name_index n (names t) of
        None \<Rightarrow> Inl NameError
      | Some i \<Rightarrow> if i < length (shape t) then Inr (shape t ! i) else Inl NameError)"

text \<open>\<open>x[:k]\<close> and \<open>x[k:]\<close>: slices along the first dimension; the names are kept.\<close>

definition slice_to :: "nat \<Rightarrow> 'a tensor \<Rightarrow> error + 'a tensor" where
  "slice_to k t =
     (case shape t of
        [] \<Rightarrow> Inl IndexError
      | n # rest \<Rightarrow>
          Inr (t\<lparr>shape := min k n # rest, data := take (k * prod_list rest) (data t)\<rparr>))"

definition slice_from :: "nat \<Rightarrow> 'a tensor \<Rightarrow> error + 'a tensor" where
  "slice_from k t =
     (case shape t of
        [] \<Rightarrow> Inl IndexError
      | n # rest \<Rightarrow>
          Inr (t\<lparr>shape := (n - k) # rest, data := drop (k * prod_list rest) (data t)\<rparr>))"

text \<open>
  \<open>x.flatten((a, b), out)\<close>: the two named dimensions, which must be adjacent and in this
  order, become one dimension named \<open>out\<close>.  The elements stay in place.
\<close>

definition flatten_named :: "string \<Rightarrow> string \<Rightarrow> string \<Rightarrow> 'a tensor \<Rightarrow> error + 'a tensor" where
  "flatten_named a b out t =
     (case name_index a (names t) of
        None \<Rightarrow> Inl NameError
      | Some i \<Rightarrow>
        (case name_index b (names t) of
           None \<Rightarrow> Inl NameError
         | Some j \<Rightarrow>
             if j \<noteq> Suc i \<or> length (shape t) \<le> j then Inl NameError
             else Inr \<lparr>names = take i (names t) @ [Some out] @ drop (i + 2) (names t),
                       shape = take i (shape t) @ [shape t ! i * shape t ! j] @ drop (i + 2) (shape t),
                       data = data t\<rparr>))"

text \<open>
  \<open>x.unflatten(d, ((a, h), (b, w)))\<close>: the dimension named \<open>d\<close> is split into two
  dimensions of sizes \<open>h\<close> and \<open>w\<close>, which must multiply to its size.
\<close>

definition unflatten_named :: "string \<Rightarrow> string \<times> nat \<Rightarrow> string \<times> nat \<Rightarrow> 'a tensor \<Rightarrow> error + 'a tensor" where
  "unflatten_named d ah bw t =
     (case name_index d (names t) of
        None \<Rightarrow> Inl NameError
      | Some i \<Rightarrow>
          if length (shape t) \<le> i then Inl NameError
          else if shape t ! i \<noteq> snd ah * snd bw then Inl ShapeMismatch
          else Inr \<lparr>names = take i (names t) @ [Some (fst ah), Some (fst bw)] @ drop (Suc i) (names t),
                    shape = take i (shape t) @ [snd ah, snd bw] @ drop (Suc i) (shape t),
                    data = data t\<rparr>)"

text \<open>
  \<open>x.refine_names(n1, ..., nk)\<close>, with a trailing ellipsis when \<open>ellipsis\<close> is set: each
  listed dimension gets its name; it must be unnamed or already carry that name.  With
  the ellipsis the remaining names are kept, without it the list covers every dimension.
\<close>

fun refine_list :: "string list \<Rightarrow> string option list \<Rightarrow> string option list option" where
  "refine_list [] old = Some old"
| "refine_list (n # ns) [] = None"
| "refine_list (n # ns) (x # xs) =
     (if x = None \<or> x = Some n then map_option ((#) (Some n)) (refine_list ns xs) else None)"

definition refine_names :: "string list \<Rightarrow> bool \<Rightarrow> 'a tensor \<Rightarrow> error + 'a tensor" where
  "refine_names ns ellipsis t =
     (if \<not> ellipsis \<and> length ns \<noteq> length (names t) then Inl NameError
      else (case refine_list ns (names t) of
              None \<Rightarrow> Inl NameError
            | Some ns' \<Rightarrow> Inr (t\<lparr>names := ns'\<rparr>)))"

text \<open>Names of two tensors unify when, position by position, they agree or one is absent.\<close>

fun unify_names :: "string option list \<Rightarrow> string option list \<Rightarrow> string option list option" where
  "unify_names [] [] = Some []"
| "unify_names (x # xs) (y # ys) =
     (if x = y \<or> y = None then map_option ((#) x) (unify_names xs ys)
      else if x = None then map_option ((#) y) (unify_names xs ys)
      else None)"
| "unify_names _ _ = None"

text \<open>\<open>torch.cat([a, b], 0)\<close>: concatenation along the first dimension.\<close>

definition cat0 :: "'a tensor \<Rightarrow> 'a tensor \<Rightarrow> error + 'a tensor" where
  "cat0 a b =
     (case (shape a, shape b) of
        (m # ra, n # rb) \<Rightarrow>
          if ra \<noteq> rb then Inl ShapeMismatch
          else (case unify_names (names a) (names b) of
                  None \<Rightarrow> Inl NameError
                | Some ns \<Rightarrow> Inr \<lparr>names = ns, shape = (m + n) # ra, data = data a @ data b\<rparr>)
      | _ \<Rightarrow> Inl ShapeMismatch)"

text \<open>
  \<open>a @ b\<close> for two matrices, the only case the module reaches: the inner sizes must
  agree.  The result takes the row name of \<open>a\<close> and the column name of \<open>b\<close>.
\<close>

definition matmul :: "real tensor \<Rightarrow> real tensor \<Rightarrow> error + real tensor" where
  "matmul a b =
     (if length (shape a) \<noteq> 2 \<or> length (shape b) \<noteq> 2 then Inl ShapeMismatch
      else
        let m = shape a ! 0; k = shape a ! 1; k' = shape b ! 0; n = shape b ! 1 in
        if k \<noteq> k' then Inl ShapeMismatch
        else Inr \<lparr>names = [names a ! 0, names b ! 1],
                  shape = [m, n],
                  data = concat (map (\<lambda>i. map (\<lambda>j.
                           sum_list (map (\<lambda>l. data a ! (i * k + l) * data b ! (l * n + j)) [0..<k]))
                           [0..<n]) [0..<m])\<rparr>)"

text \<open>\<open>a.t()\<close>: the transpose of a matrix.\<close>

definition transpose_t :: "'a tensor \<Rightarrow> error + 'a tensor" where
  "transpose_t a =
     (if length (shape a) \<noteq> 2 then Inl ShapeMismatch
      else
        let m = shape a ! 0; n = shape a ! 1 in
        Inr \<lparr>names = rev (names a),
             shape = [n, m],
             data = concat (map (\<lambda>j. map (\<lambda>i. data a ! (i * n + j)) [0..<m]) [0..<n])\<rparr>)"

text \<open>A tensor without names from nested rows, as \<open>torch.Tensor(rows)\<close> builds it.\<close>

definition of_rows :: "'a list list \<Rightarrow> 'a tensor" where
  "of_rows rows =
     \<lparr>names = [None, None],
      shape = [length rows, (case rows of [] \<Rightarrow> 0 | r # _ \<Rightarrow> length r)],
      data = concat rows\<rparr>"

text \<open>A tensor of no dimensions holding one number, as \<open>torch.tensor(v)\<close> builds it.\<close>

definition scalar_tensor :: "'a \<Rightarrow> 'a tensor" where
  "scalar_tensor v = \<lparr>names = [], shape = [], data = [v]\<rparr>"

section \<open>ToRGB: the colour decorrelation\<close>

text \<open>\<open>np.linalg.norm(m, axis=0)\<close>: the Euclidean norm of every column.\<close>

definition column_norms :: "real list list \<Rightarrow> real list" where
  "column_norms m =
     map (\<lambda>j. sqrt (sum_list (map (\<lambda>row. (row ! j) * (row ! j)) m)))
       [0..<(case m of [] \<Rightarrow> 0 | r # _ \<Rightarrow> length r)]"

text \<open>\<open>np.max\<close> of a non-empty array.\<close>

definition np_max :: "real list \<Rightarrow> real" where
  "np_max xs = foldr max (butlast xs) (last xs)"

definition KLT :: "real list list" where
  "KLT = [[26 / 100, 9 / 100, 2 / 100], [27 / 100, 0, - (5 / 100)], [27 / 100, - (9 / 100), 3 / 100]]"

definition klt_transform :: "real tensor" where
  "klt_transform =
     (let d = np_max (column_norms KLT) in of_rows (map (map (\<lambda>v. v / d)) KLT))"

definition i1i2i3_transform :: "real tensor" where
  "i1i2i3_transform =
     of_rows [[1 / 3, 1 / 3, 1 / 3], [1 / 2, 0, - (1 / 2)], [- (1 / 4), 1 / 2, - (1 / 4)]]"

record ToRGB =
  transform :: "real tensor"

definition ToRGB_init :: "string \<Rightarrow> error + ToRGB" where
  "ToRGB_init transform_name =
     (if transform_name = ''klt'' then Inr \<lparr>transform = klt_transform\<rparr>
      else if transform_name = ''i1i2i3'' then Inr \<lparr>transform = i1i2i3_transform\<rparr>
      else Inl ValueError)"

text \<open>
  \<open>ToRGB.forward(x, inverse)\<close>, statement by statement: the rank assertion, the alpha
  channel taken off when the dimension named C has size 4, the spatial dimensions
  flattened, the product with the matrix (its transpose when \<open>inverse\<close> is set; the flag is \<open>inverse_flag\<close> here), the spatial
  dimensions restored, and the alpha channel concatenated on again.
\<close>

definition ToRGB_forward :: "ToRGB \<Rightarrow> real tensor \<Rightarrow> bool \<Rightarrow> error + real tensor" where
  "ToRGB_forward self x0 inverse_flag =
     (if dim x0 \<noteq> 3 then Inl AssertionError
      else
        and_then (size_named x0 ''C'') (\<lambda>c.
        let has_alpha = (c = 4) in
        and_then
          (if has_alpha then
             and_then (slice_to 3 x0) (\<lambda>x3.
             and_then (slice_from 3 x0) (\<lambda>a.
               if dim x3 \<noteq> dim a then Inl AssertionError else Inr (x3, Some a)))
           else Inr (x0, None))
          (\<lambda>(x, alpha_channel).
        and_then (size_named x ''H'') (\<lambda>h.
        and_then (size_named x ''W'') (\<lambda>w.
        and_then (flatten_named ''H'' ''W'' ''spatials'' x) (\<lambda>flat.
        and_then
          (if inverse_flag then and_then (transpose_t (transform self)) (\<lambda>tt. matmul tt flat)
           else matmul (transform self) flat)
          (\<lambda>correct.
        and_then (unflatten_named ''spatials'' (''H'', h) (''W'', w) correct) (\<lambda>u.
        and_then (refine_names [''C''] True u) (\<lambda>chw.
          (case alpha_channel of
             Some a \<Rightarrow> cat0 chw a
           | None \<Rightarrow> Inr chw))))))))))"

section \<open>Elementwise operations and broadcasting\<close>

definition map_data :: "('a \<Rightarrow> 'b) \<Rightarrow> 'a tensor \<Rightarrow> 'b tensor" where
  "map_data f t = \<lparr>names = names t, shape = shape t, data = map f (data t)\<rparr>"

text \<open>
  Two shapes broadcast when, read from the last dimension, the sizes agree or one of them
  is 1; the shorter shape is padded on the left.  The function works on reversed shapes.
\<close>

fun broadcast_rev :: "nat list \<Rightarrow> nat list \<Rightarrow> nat list option" where
  "broadcast_rev [] ys = Some ys"
| "broadcast_rev (x # xs) [] = Some (x # xs)"
| "broadcast_rev (x # xs) (y # ys) =
     (if x = y \<or> y = 1 then map_option ((#) x) (broadcast_rev xs ys)
      else if x = 1 then map_option ((#) y) (broadcast_rev xs ys)
      else None)"

definition broadcast_shapes :: "nat list \<Rightarrow> nat list \<Rightarrow> nat list option" where
  "broadcast_shapes a b = map_option rev (broadcast_rev (rev a) (rev b))"

text \<open>All indices of a shape, in row-major order.\<close>

fun indices :: "nat list \<Rightarrow> nat list list" where
  "indices [] = [[]]"
| "indices (n # ns) = concat (map (\<lambda>i. map ((#) i) (indices ns)) [0..<n])"

text \<open>
  The position in the row-major data of a tensor of shape \<open>s\<close> that the index \<open>idx\<close> of
  the broadcast result reads: \<open>s\<close> is padded on the left with 1s, and a dimension of size
  1 is read at 0.
\<close>

definition source_offset :: "nat list \<Rightarrow> nat list \<Rightarrow> nat" where
  "source_offset s idx =
     foldl (\<lambda>acc (n, i). acc * n + (if n = 1 then 0 else i)) 0
       (zip (replicate (length idx - length s) 1 @ s) idx)"

definition broadcast_op :: "('a \<Rightarrow> 'a \<Rightarrow> 'a) \<Rightarrow> 'a tensor \<Rightarrow> 'a tensor \<Rightarrow> error + 'a tensor" where
  "broadcast_op f a b =
     (case broadcast_shapes (shape a) (shape b) of
        None \<Rightarrow> Inl ShapeMismatch
      | Some s \<Rightarrow>
        (case unify_names (replicate (length s - length (names a)) None @ names a)
                          (replicate (length s - length (names b)) None @ names b) of
           None \<Rightarrow> Inl NameError
         | Some ns \<Rightarrow>
             Inr \<lparr>names = ns, shape = s,
                  data = map (\<lambda>idx. f (data a ! source_offset (shape a) idx)
                                       (data b ! source_offset (shape b) idx))
                           (indices s)\<rparr>))"

text \<open>\<open>a[:, None]\<close> on a vector, \<open>a[None, :, :, None]\<close> on a matrix.\<close>

definition unsqueeze_last :: "'a tensor \<Rightarrow> 'a tensor" where
  "unsqueeze_last t = t\<lparr>names := names t @ [None], shape := shape t @ [1]\<rparr>"

definition unsqueeze_both :: "'a tensor \<Rightarrow> 'a tensor" where
  "unsqueeze_both t = t\<lparr>names := None # names t @ [None], shape := 1 # shape t @ [1]\<rparr>"

text \<open>
  \<open>torch.randn(shape)\<close>: the samples are drawn from a source \<open>rnd\<close>, a parameter of the
  model.
\<close>

definition randn :: "(nat \<Rightarrow> real) \<Rightarrow> nat list \<Rightarrow> real tensor" where
  "randn rnd s = \<lparr>names = replicate (length s) None, shape = s, data = map rnd [0..<prod_list s]\<rparr>"

text \<open>
  Assignment to a module attribute that is registered as a parameter, as
  \<open>torch.nn.Module.__setattr__\<close> performs it: a value that is an \<open>nn.Parameter\<close> replaces
  the registered one; any other tensor raises \<open>TypeError\<close> (cannot assign as parameter,
  \<open>torch.nn.Parameter\<close> or \<open>None\<close> expected).
\<close>

datatype 'a assigned = Parameter 'a | Tensor 'a

definition setattr_parameter :: "'a assigned \<Rightarrow> error + 'a" where
  "setattr_parameter v = (case v of Parameter t \<Rightarrow> Inr t | Tensor t \<Rightarrow> Inl TypeError)"

section \<open>logit\<close>

text \<open>
  The result of a floating-point division or logarithm: a finite number, an infinity or
  not-a-number.  Rounding is not modelled.
\<close>

datatype fval = Finite real | PosInf | NegInf | NaN

definition float_div :: "real \<Rightarrow> real \<Rightarrow> fval" where
  "float_div a b =
     (if b \<noteq> 0 then Finite (a / b)
      else if 0 < a then PosInf else if a < 0 then NegInf else NaN)"

definition float_log :: "fval \<Rightarrow> fval" where
  "float_log v =
     (case v of
        Finite x \<Rightarrow> if 0 < x then Finite (ln x) else if x = 0 then NegInf else NaN
      | PosInf \<Rightarrow> PosInf
      | NegInf \<Rightarrow> NaN
      | NaN \<Rightarrow> NaN)"

text \<open>\<open>torch.clamp(v, min=lo, max=hi)\<close> is \<open>min(max(v, lo), hi)\<close>.\<close>

definition torch_clamp :: "real \<Rightarrow> real \<Rightarrow> real \<Rightarrow> real" where
  "torch_clamp lo hi v = min (max v lo) hi"

text \<open>
  \<open>logit(p, epsilon)\<close>.  The clamp bounds \<open>epsilon\<close> and \<open>1 - epsilon\<close> and the assertion
  are taken over the reals.  On a float32 tensor torch rounds the two bounds to float32:
  the upper bound stays below 1 when \<open>epsilon\<close> is at least \<open>1 / 2 ^ 24\<close> (for an
  \<open>epsilon\<close> of \<open>1 / 2 ^ 25\<close> or less, \<open>1 - epsilon\<close> rounds to 1 and the assertion fails
  on an input of 1), and the lower bound is above 0 for every such \<open>epsilon\<close>.  The model
  stands for the program on the epsilons from \<open>1 / 2 ^ 24\<close> on; the repository's own,
  \<open>1e-6\<close> and \<open>1e-4\<close>, are among them.
\<close>

definition logit :: "real tensor \<Rightarrow> real \<Rightarrow> error + fval tensor" where
  "logit p0 epsilon =
     (let p = map_data (torch_clamp epsilon (1 - epsilon)) p0 in
      if data p = [] then Inl EmptyTensorError
      else if \<not> (0 \<le> Min (set (data p)) \<and> Max (set (data p)) < 1) then Inl AssertionError
      else Inr (map_data (\<lambda>v. float_log (float_div v (1 - v))) p))"

section \<open>FFTImage: the frequency parameterization\<close>

text \<open>
  \<open>np.fft.fftfreq(n)\<close>: the integers \<open>0, ..., (n-1) div 2\<close> followed by
  \<open>-(n div 2), ..., -1\<close>, each multiplied by \<open>1.0 / n\<close>.
\<close>

definition fftfreq :: "nat \<Rightarrow> error + real tensor" where
  "fftfreq n =
     (if n = 0 then Inl ZeroDivisionError
      else
        let val = 1 / real n;
            N = (n - 1) div 2 + 1;
            results = map int [0..<N] @ map (\<lambda>i. int i - int (n div 2)) [0..<n div 2]
        in Inr \<lparr>names = [None], shape = [n], data = map (\<lambda>k. real_of_int k * val) results\<rparr>)"

definition rfft2d_freqs :: "nat \<Rightarrow> nat \<Rightarrow> error + real tensor" where
  "rfft2d_freqs height width =
     and_then (fftfreq height) (\<lambda>fy0.
     let f_y = unsqueeze_last fy0;
         add = (if width mod 2 = 1 then 2 else 1) in
     and_then (fftfreq width) (\<lambda>fx0.
     and_then (slice_to (width div 2 + add) fx0) (\<lambda>f_x.
     and_then (broadcast_op (*) f_x f_x) (\<lambda>xx.
     and_then (broadcast_op (*) f_y f_y) (\<lambda>yy.
     and_then (broadcast_op (+) xx yy) (\<lambda>s.
       Inr (map_data sqrt s)))))))"

record FFTImage =
  size_hw :: "nat list"
  fourier_coeffs :: "real tensor"
  spectrum_scale :: "real tensor"

definition FFTImage_init :: "(nat \<Rightarrow> real) \<Rightarrow> nat list \<Rightarrow> nat \<Rightarrow> error + FFTImage" where
  "FFTImage_init rnd sz channels =
     (if length sz \<noteq> 2 then Inl AssertionError
      else
        let coeffs_shape = [channels, sz ! 0, sz ! 1 div 2 + 1, 2];
            random_coeffs = randn rnd coeffs_shape in
        and_then (rfft2d_freqs (sz ! 0) (sz ! 1)) (\<lambda>frequencies.
        if max (sz ! 0) (sz ! 1) = 0 then Inl ZeroDivisionError
        else
          let floor_term = 1 / real (max (sz ! 0) (sz ! 1));
              scale = map_data (\<lambda>f. 1 / max f floor_term) frequencies;
              scale = map_data (\<lambda>v. v * sqrt (real (sz ! 0 * sz ! 1))) scale in
          Inr \<lparr>size_hw = sz,
               fourier_coeffs = map_data (\<lambda>v. v / 50) random_coeffs,
               spectrum_scale = unsqueeze_both scale\<rparr>))"

text \<open>
  \<open>torch.rfft(x, signal_ndim=2)\<close> and \<open>torch.irfft(x, signal_ndim=2)\<close>.  The shapes are
  those of torch: the one-sided spectrum of a signal of width \<open>w\<close> has \<open>w div 2 + 1\<close>
  columns of (real, imaginary) pairs, and the signal rebuilt from \<open>k\<close> columns has width
  \<open>2 * (k - 1)\<close>.  The numbers are a parameter (\<open>vals\<close>) of the model.
\<close>

definition rfft :: "(real tensor \<Rightarrow> real list) \<Rightarrow> real tensor \<Rightarrow> error + real tensor" where
  "rfft vals x =
     (if length (shape x) < 2 then Inl ShapeMismatch
      else Inr \<lparr>names = replicate (length (shape x) + 1) None,
                shape = butlast (shape x) @ [last (shape x) div 2 + 1, 2],
                data = vals x\<rparr>)"

definition irfft :: "(real tensor \<Rightarrow> real list) \<Rightarrow> real tensor \<Rightarrow> error + real tensor" where
  "irfft vals x =
     (if length (shape x) < 3 \<or> last (shape x) \<noteq> 2 then Inl ShapeMismatch
      else
        let s = butlast (shape x) in
        Inr \<lparr>names = replicate (length s) None,
             shape = butlast s @ [2 * (last s - 1)],
             data = vals x\<rparr>)"

text \<open>\<open>t[:, :h, :w]\<close> on a tensor of three dimensions.\<close>

definition crop_hw :: "nat \<Rightarrow> nat \<Rightarrow> 'a tensor \<Rightarrow> error + 'a tensor" where
  "crop_hw h w t =
     (if length (shape t) \<noteq> 3 then Inl IndexError
      else
        let c = shape t ! 0; h' = shape t ! 1; w' = shape t ! 2 in
        Inr (t\<lparr>shape := [c, min h h', min w w'],
               data := concat (map (\<lambda>ci. concat (map (\<lambda>i.
                         take (min w w') (drop ((ci * h' + i) * w') (data t)))
                         [0..<min h h'])) [0..<c])\<rparr>))"

definition FFTImage_set_image ::
  "(real tensor \<Rightarrow> real list) \<Rightarrow> FFTImage \<Rightarrow> real tensor \<Rightarrow> error + FFTImage" where
  "FFTImage_set_image vals self correlated_image =
     and_then (rfft vals correlated_image) (\<lambda>coeffs.
     and_then (broadcast_op (/) coeffs (spectrum_scale self)) (\<lambda>q.
     and_then (setattr_parameter (Tensor q)) (\<lambda>p.
       Inr (self\<lparr>fourier_coeffs := p\<rparr>))))"

definition FFTImage_forward ::
  "(real tensor \<Rightarrow> real list) \<Rightarrow> FFTImage \<Rightarrow> error + real tensor" where
  "FFTImage_forward vals self =
     (if length (size_hw self) \<noteq> 2 then Inl ValueError
      else
        let h = size_hw self ! 0; w = size_hw self ! 1 in
        and_then (broadcast_op (*) (fourier_coeffs self) (spectrum_scale self)) (\<lambda>scaled_spectrum.
        and_then (irfft vals scaled_spectrum) (\<lambda>full.
        and_then (crop_hw h w full) (\<lambda>output.
          refine_names [''C'', ''H'', ''W''] False output))))"

section \<open>PixelImage: the pixel parameterization\<close>

record PixelImage =
  image :: "real tensor"

definition PixelImage_init ::
  "(nat \<Rightarrow> real) \<Rightarrow> nat list option \<Rightarrow> nat option \<Rightarrow> real tensor option \<Rightarrow> error + PixelImage" where
  "PixelImage_init rnd sz channels init =
     (case init of
        None \<Rightarrow>
          (case (sz, channels) of
             (Some s, Some c) \<Rightarrow>
               if length s < 2 then Inl IndexError
               else Inr \<lparr>image = map_data (\<lambda>v. v / 10 + 1 / 2) (randn rnd [c, s ! 0, s ! 1])\<rparr>
           | _ \<Rightarrow> Inl AssertionError)
      | Some t \<Rightarrow>
          (case shape t of
             [] \<Rightarrow> Inl IndexError
           | n # _ \<Rightarrow> if n = 3 then Inr \<lparr>image = t\<rparr> else Inl AssertionError))"

definition PixelImage_forward :: "PixelImage \<Rightarrow> error + real tensor" where
  "PixelImage_forward self = Inr (image self)"

definition PixelImage_set_image :: "PixelImage \<Rightarrow> real tensor \<Rightarrow> error + PixelImage" where
  "PixelImage_set_image self correlated_image =
     and_then (setattr_parameter (Parameter correlated_image)) (\<lambda>p.
       Inr (self\<lparr>image := p\<rparr>))"

section \<open>Properties\<close>

subsection \<open>Auxiliary facts\<close>

lemma and_then_Inl: "and_then (Inl e) f = Inl e"
  by (simp add: and_then_def)

lemma and_then_Inr: "and_then (Inr v) f = f v"
  by (simp add: and_then_def)

lemmas tensor_ops =
  dim_def size_named_def and_then_def slice_to_def slice_from_def flatten_named_def
  matmul_def transpose_t_def unflatten_named_def refine_names_def cat0_def Let_def

lemma upt_3: "[0..<3] = [0, 1, 2]"
  by (simp add: upt_rec)

lemma length_concat_rows: "length (concat (map (\<lambda>i. map (g i) xs) [0..<n])) = n * length xs"
  by (induction n) simp_all

lemma length_concat_grid: "length (concat (map (\<lambda>i. map (f i) [0..<n]) [0..<m])) = m * n"
  by (induction m) simp_all

lemma length_indices: "length (indices s) = prod_list s"
  by (induction s) (simp_all add: length_concat_rows)

text \<open>Both presets are 3 by 3 matrices without dimension names.\<close>

lemma ToRGB_init_shape:
  assumes "ToRGB_init nm = Inr self"
  shows "shape (transform self) = [3, 3] \<and> names (transform self) = [None, None]"
  using assms
  by (auto simp: ToRGB_init_def klt_transform_def i1i2i3_transform_def of_rows_def KLT_def Let_def
      split: if_splits)

text \<open>The largest column norm of the KLT matrix is that of its first column.\<close>

lemma np_max_klt: "np_max (column_norms KLT) = sqrt (2134 / 10000)"
  by (simp add: np_max_def column_norms_def KLT_def upt_3)

lemma klt_transform_explicit:
  "klt_transform = of_rows (map (map (\<lambda>v. v / sqrt (2134 / 10000))) KLT)"
  by (simp add: klt_transform_def np_max_klt)

subsection \<open>ToRGB.forward\<close>

text \<open>
  C9.  \<open>ToRGB.forward\<close> accepts only tensors of exactly three dimensions: on any other
  rank the first statement, the assertion, fails, whatever the matrix, the direction and
  the names, so nothing is transformed.
\<close>

theorem ToRGB_forward_rank_assert:
  assumes "dim x \<noteq> 3"
  shows "ToRGB_forward self x inverse_flag = Inl AssertionError"
  using assms by (simp add: ToRGB_forward_def)

theorem ToRGB_forward_rank_assert_witness:
  "dim \<lparr>names = [Some ''B'', Some ''C'', Some ''H'', Some ''W''], shape = [1, 3, 1, 1],
        data = [1, 2, 3 :: real]\<rparr> \<noteq> 3
   \<and> ToRGB_forward \<lparr>transform = i1i2i3_transform\<rparr>
        \<lparr>names = [Some ''B'', Some ''C'', Some ''H'', Some ''W''], shape = [1, 3, 1, 1],
         data = [1, 2, 3]\<rparr> False = Inl AssertionError"
proof -
  have r: "dim \<lparr>names = [Some ''B'', Some ''C'', Some ''H'', Some ''W''], shape = [1, 3, 1, 1],
        data = [1, 2, 3 :: real]\<rparr> \<noteq> 3"
    by (simp add: dim_def)
  show ?thesis
    using r ToRGB_forward_rank_assert [OF r] by simp
qed

text \<open>
  C7.  On a tensor named (C, H, W) with \<open>c\<close> channels, let \<open>cc\<close> be the channel count
  after the alpha channel is taken off (3 when \<open>c = 4\<close>, else \<open>c\<close>).  When \<open>cc\<close> is not 3
  the matrix product raises the shape mismatch; when it is 3 the call returns a tensor
  of the input's shape.
\<close>

theorem ToRGB_forward_channel_count:
  assumes "ToRGB_init nm = Inr self"
    and "names x = [Some ''C'', Some ''H'', Some ''W'']"
    and "shape x = [c, h, w]"
  shows "(let cc = (if c = 4 then 3 else c) in
            (cc \<noteq> 3 \<longrightarrow> ToRGB_forward self x inverse_flag = Inl ShapeMismatch) \<and>
            (cc = 3 \<longrightarrow> (\<exists>y. ToRGB_forward self x inverse_flag = Inr y \<and> shape y = [c, h, w])))"
proof -
  have m: "shape (transform self) = [3, 3]" "names (transform self) = [None, None]"
    using ToRGB_init_shape [OF assms(1)] by simp_all
  consider (alpha) "c = 4" | (rgb) "c = 3" | (other) "c \<noteq> 3" "c \<noteq> 4"
    by blast
  then show ?thesis
  proof cases
    case alpha
    then show ?thesis
      using assms(2,3) m by (simp add: ToRGB_forward_def tensor_ops)
  next
    case rgb
    then show ?thesis
      using assms(2,3) m by (simp add: ToRGB_forward_def tensor_ops)
  next
    case other
    then show ?thesis
      using assms(2,3) m by (simp add: ToRGB_forward_def tensor_ops)
  qed
qed

theorem ToRGB_forward_channel_count_witness:
  "ToRGB_init ''klt'' = Inr \<lparr>transform = klt_transform\<rparr>
   \<and> ToRGB_forward \<lparr>transform = klt_transform\<rparr>
        \<lparr>names = [Some ''C'', Some ''H'', Some ''W''], shape = [5, 1, 1],
         data = [1, 2, 3, 4, 5]\<rparr> False = Inl ShapeMismatch
   \<and> (\<exists>y. ToRGB_forward \<lparr>transform = klt_transform\<rparr>
        \<lparr>names = [Some ''C'', Some ''H'', Some ''W''], shape = [3, 1, 1],
         data = [1, 2, 3]\<rparr> True = Inr y \<and> shape y = [3, 1, 1])"
proof -
  have i: "ToRGB_init ''klt'' = Inr \<lparr>transform = klt_transform\<rparr>"
    by (simp add: ToRGB_init_def)
  have five: "ToRGB_forward \<lparr>transform = klt_transform\<rparr>
        \<lparr>names = [Some ''C'', Some ''H'', Some ''W''], shape = [5, 1, 1],
         data = [1, 2, 3, 4, 5]\<rparr> False = Inl ShapeMismatch"
    using ToRGB_forward_channel_count [OF i, of _ 5 1 1 False] by simp
  have three: "\<exists>y. ToRGB_forward \<lparr>transform = klt_transform\<rparr>
        \<lparr>names = [Some ''C'', Some ''H'', Some ''W''], shape = [3, 1, 1],
         data = [1, 2, 3]\<rparr> True = Inr y \<and> shape y = [3, 1, 1]"
    using ToRGB_forward_channel_count [OF i, of _ 3 1 1 True] by simp
  show ?thesis
    using i five three by blast
qed

text \<open>
  C6.  On a well-formed tensor named (C, H, W) with four channels, in either direction,
  the call returns a tensor of the same shape whose slice from channel 3 on (the alpha
  plane) is the input's, element for element, and whose first three channels are what
  the call returns on the input's first three channels.
\<close>

theorem ToRGB_forward_alpha_passthrough:
  assumes "ToRGB_init nm = Inr self"
    and "wf_tensor x"
    and "names x = [Some ''C'', Some ''H'', Some ''W'']"
    and "shape x = [4, h, w]"
  shows "\<exists>y. ToRGB_forward self x inverse_flag = Inr y \<and> shape y = [4, h, w] \<and>
             slice_from 3 y = slice_from 3 x \<and>
             slice_to 3 y = and_then (slice_to 3 x) (\<lambda>x3. ToRGB_forward self x3 inverse_flag)"
proof -
  have m: "shape (transform self) = [3, 3]" "names (transform self) = [None, None]"
    using ToRGB_init_shape [OF assms(1)] by simp_all
  have len: "length (data x) = 4 * (h * w)"
    using assms(2,4) by (simp add: wf_tensor_def)
  show ?thesis
    using assms(3,4) m len
    by (simp add: ToRGB_forward_def tensor_ops length_concat_grid)
qed

theorem ToRGB_forward_alpha_passthrough_witness:
  "ToRGB_init ''i1i2i3'' = Inr \<lparr>transform = i1i2i3_transform\<rparr>
   \<and> wf_tensor \<lparr>names = [Some ''C'', Some ''H'', Some ''W''], shape = [4, 1, 1],
         data = [1, 2, 3, 7 :: real]\<rparr>
   \<and> and_then (ToRGB_forward \<lparr>transform = i1i2i3_transform\<rparr>
        \<lparr>names = [Some ''C'', Some ''H'', Some ''W''], shape = [4, 1, 1],
         data = [1, 2, 3, 7]\<rparr> True) (slice_from 3)
      = Inr \<lparr>names = [Some ''C'', Some ''H'', Some ''W''], shape = [1, 1, 1], data = [7]\<rparr>"
proof -
  let ?x = "\<lparr>names = [Some ''C'', Some ''H'', Some ''W''], shape = [4, 1, 1],
         data = [1, 2, 3, 7 :: real]\<rparr>"
  have i: "ToRGB_init ''i1i2i3'' = Inr \<lparr>transform = i1i2i3_transform\<rparr>"
    by (simp add: ToRGB_init_def)
  have wf: "wf_tensor ?x"
    by (simp add: wf_tensor_def)
  obtain y where y: "ToRGB_forward \<lparr>transform = i1i2i3_transform\<rparr> ?x True = Inr y"
      "slice_from 3 y = slice_from 3 ?x"
    using ToRGB_forward_alpha_passthrough [OF i wf, of 1 1 True] by auto
  have "slice_from 3 ?x
      = Inr \<lparr>names = [Some ''C'', Some ''H'', Some ''W''], shape = [1, 1, 1], data = [7]\<rparr>"
    by (simp add: slice_from_def)
  then show ?thesis
    using i wf y by (simp add: and_then_def)
qed

text \<open>
  On one pixel and for any 3 by 3 matrix M, \<open>forward\<close> followed by \<open>forward\<close> with
  \<open>inverse\<close> set multiplies the channel vector by the product of the transpose of M with
  M.  That product is the identity exactly when the columns of M are orthonormal.
\<close>

lemma ToRGB_round_trip_one_pixel:
  fixes a b c d e f g h i p q r :: real
  shows "and_then (ToRGB_forward \<lparr>transform = of_rows [[a, b, c], [d, e, f], [g, h, i]]\<rparr>
            \<lparr>names = [Some ''C'', Some ''H'', Some ''W''], shape = [3, 1, 1], data = [p, q, r]\<rparr>
            False)
           (\<lambda>y. ToRGB_forward \<lparr>transform = of_rows [[a, b, c], [d, e, f], [g, h, i]]\<rparr> y True)
         = Inr \<lparr>names = [Some ''C'', Some ''H'', Some ''W''], shape = [3, 1, 1],
                data = [(a * a + d * d + g * g) * p + (a * b + d * e + g * h) * q
                          + (a * c + d * f + g * i) * r,
                        (b * a + e * d + h * g) * p + (b * b + e * e + h * h) * q
                          + (b * c + e * f + h * i) * r,
                        (c * a + f * d + i * g) * p + (c * b + f * e + i * h) * q
                          + (c * c + f * f + i * i) * r]\<rparr>"
  by (simp add: ToRGB_forward_def tensor_ops of_rows_def upt_3 algebra_simps)

text \<open>
  C1.  The round trip on one pixel, for both presets.  \<open>forward(x, inverse=True)\<close> multiplies
  by the transpose of the matrix, and neither matrix is orthogonal: under "i1i2i3" the
  pixel (1, 0, 0) comes back as (61/144, -1/72, -11/144), and under "klt" the pixel
  (0, 0, 1) comes back as (-1/1067, -9/2134, 19/1067).  The round trip is not close
  to the identity.
\<close>

theorem ToRGB_round_trip_is_not_identity:
  "and_then (ToRGB_init ''i1i2i3'') (\<lambda>self.
     and_then (ToRGB_forward self
        \<lparr>names = [Some ''C'', Some ''H'', Some ''W''], shape = [3, 1, 1], data = [1, 0, 0]\<rparr> False)
       (\<lambda>y. ToRGB_forward self y True))
     = Inr \<lparr>names = [Some ''C'', Some ''H'', Some ''W''], shape = [3, 1, 1],
            data = [61 / 144, - (1 / 72), - (11 / 144)]\<rparr>
   \<and> and_then (ToRGB_init ''klt'') (\<lambda>self.
     and_then (ToRGB_forward self
        \<lparr>names = [Some ''C'', Some ''H'', Some ''W''], shape = [3, 1, 1], data = [0, 0, 1]\<rparr> False)
       (\<lambda>y. ToRGB_forward self y True))
     = Inr \<lparr>names = [Some ''C'', Some ''H'', Some ''W''], shape = [3, 1, 1],
            data = [- (1 / 1067), - (9 / 2134), 19 / 1067]\<rparr>"
proof -
  have a: "and_then (ToRGB_init ''i1i2i3'') (\<lambda>self.
     and_then (ToRGB_forward self
        \<lparr>names = [Some ''C'', Some ''H'', Some ''W''], shape = [3, 1, 1], data = [1, 0, 0]\<rparr> False)
       (\<lambda>y. ToRGB_forward self y True))
     = Inr \<lparr>names = [Some ''C'', Some ''H'', Some ''W''], shape = [3, 1, 1],
            data = [61 / 144, - (1 / 72), - (11 / 144)]\<rparr>"
    by (simp add: ToRGB_forward_def ToRGB_init_def tensor_ops i1i2i3_transform_def of_rows_def upt_3)
  have b: "and_then (ToRGB_init ''klt'') (\<lambda>self.
     and_then (ToRGB_forward self
        \<lparr>names = [Some ''C'', Some ''H'', Some ''W''], shape = [3, 1, 1], data = [0, 0, 1]\<rparr> False)
       (\<lambda>y. ToRGB_forward self y True))
     = Inr \<lparr>names = [Some ''C'', Some ''H'', Some ''W''], shape = [3, 1, 1],
            data = [- (1 / 1067), - (9 / 2134), 19 / 1067]\<rparr>"
    by (simp add: ToRGB_forward_def ToRGB_init_def tensor_ops klt_transform_explicit KLT_def
        of_rows_def upt_3)
  show ?thesis
    using a b by (rule conjI)
qed

subsection \<open>Broadcasting and the frequency grid\<close>

lemma broadcast_rev_length:
  "broadcast_rev xs ys = Some s \<Longrightarrow> length s = max (length xs) (length ys)"
  by (induction xs ys arbitrary: s rule: broadcast_rev.induct) (auto split: if_splits)

lemma broadcast_shapes_length:
  "broadcast_shapes a b = Some s \<Longrightarrow> length s = max (length a) (length b)"
  by (auto simp: broadcast_shapes_def dest: broadcast_rev_length)

lemma unify_unnamed: "unify_names (replicate n None) (replicate n None) = Some (replicate n None)"
  by (induction n) simp_all

text \<open>An elementwise operation on tensors without names succeeds when the shapes broadcast.\<close>

lemma broadcast_op_unnamed:
  assumes "broadcast_shapes (shape a) (shape b) = Some s"
    and "names a = replicate (length (shape a)) None"
    and "names b = replicate (length (shape b)) None"
  shows "\<exists>t. broadcast_op f a b = Inr t \<and> names t = replicate (length s) None \<and> shape t = s \<and>
             length (data t) = prod_list s"
proof -
  have len: "length s = max (length (shape a)) (length (shape b))"
    using assms(1) by (rule broadcast_shapes_length)
  have na: "replicate (length s - length (names a)) None @ names a = replicate (length s) None"
    using len assms(2) by (simp add: replicate_add [symmetric])
  have nb: "replicate (length s - length (names b)) None @ names b = replicate (length s) None"
    using len assms(3) by (simp add: replicate_add [symmetric])
  show ?thesis
    by (simp add: broadcast_op_def assms(1) na nb unify_unnamed length_indices)
qed

lemma broadcast_same_vec: "broadcast_shapes [k] [k] = Some [k]"
  by (simp add: broadcast_shapes_def)

lemma broadcast_same_col: "broadcast_shapes [h, Suc 0] [h, Suc 0] = Some [h, Suc 0]"
  by (simp add: broadcast_shapes_def)

lemma broadcast_row_col: "broadcast_shapes [k] [h, Suc 0] = Some [h, k]"
  by (simp add: broadcast_shapes_def)

lemma broadcast_coeffs_scale:
  "broadcast_shapes [c, h, k, 2] [1, h, k, 1] = Some [c, h, k, 2]"
  by (simp add: broadcast_shapes_def)

lemma broadcast_odd_width_fails:
  assumes "w mod 2 = 1" "3 \<le> w"
  shows "broadcast_shapes [c, h, w div 2 + 1, 2] [1, h, w div 2 + 2, 1] = None"
proof -
  have "w div 2 + 1 \<noteq> 1"
    using assms by presburger
  then show ?thesis
    by (simp add: broadcast_shapes_def)
qed

lemma fftfreq_ok:
  assumes "0 < n"
  shows "\<exists>t. fftfreq n = Inr t \<and> names t = [None] \<and> shape t = [n] \<and> length (data t) = n"
proof -
  have "(n - 1) div 2 + 1 + n div 2 = n"
    using assms by presburger
  then show ?thesis
    using assms by (simp add: fftfreq_def Let_def)
qed

text \<open>
  The grid of \<open>rfft2d_freqs\<close> has \<open>height\<close> rows and as many columns as the slice of the
  column frequencies keeps: \<open>width div 2 + 2\<close> of them on an odd width and
  \<open>width div 2 + 1\<close> on an even one, and never more than \<open>width\<close>.
\<close>

lemma rfft2d_freqs_ok:
  assumes "0 < h" "0 < w"
  shows "\<exists>t. rfft2d_freqs h w = Inr t \<and> names t = [None, None] \<and>
             shape t = [h, min (w div 2 + (if w mod 2 = 1 then 2 else 1)) w] \<and>
             length (data t) = h * min (w div 2 + (if w mod 2 = 1 then 2 else 1)) w"
proof -
  define k where "k = min (w div 2 + (if w mod 2 = 1 then 2 else 1)) w"
  obtain fy where fy: "fftfreq h = Inr fy" "names fy = [None]" "shape fy = [h]"
    using fftfreq_ok [OF assms(1)] by blast
  obtain fx where fx: "fftfreq w = Inr fx" "names fx = [None]" "shape fx = [w]"
    using fftfreq_ok [OF assms(2)] by blast
  define f_y where "f_y = unsqueeze_last fy"
  have f_y: "names f_y = [None, None]" "shape f_y = [h, Suc 0]"
    by (simp_all add: f_y_def unsqueeze_last_def fy)
  obtain f_x where f_x: "slice_to (w div 2 + (if w mod 2 = 1 then 2 else 1)) fx = Inr f_x"
      "names f_x = [None]" "shape f_x = [k]"
    by (simp add: slice_to_def fx k_def)
  obtain xx where xx: "broadcast_op (*) f_x f_x = Inr xx" "names xx = [None]" "shape xx = [k]"
    using broadcast_op_unnamed [of f_x f_x "[k]" "(*)"] f_x by (auto simp: broadcast_same_vec)
  obtain yy where yy: "broadcast_op (*) f_y f_y = Inr yy" "names yy = [None, None]"
      "shape yy = [h, Suc 0]"
    using broadcast_op_unnamed [of f_y f_y "[h, Suc 0]" "(*)"] f_y
    by (auto simp: broadcast_same_col)
  obtain s where s: "broadcast_op (+) xx yy = Inr s" "names s = [None, None]" "shape s = [h, k]"
      "length (data s) = h * k"
    using broadcast_op_unnamed [of xx yy "[h, k]" "(+)"] xx yy by (auto simp: broadcast_row_col)
  have "rfft2d_freqs h w = Inr (map_data sqrt s)"
    using fy(1) fx(1) f_x(1) xx(1) yy(1) s(1)
    by (simp add: rfft2d_freqs_def and_then_def Let_def f_y_def [symmetric])
  then show ?thesis
    using s by (simp add: map_data_def k_def)
qed

text \<open>What the constructor stores, for positive dimensions.\<close>

lemma FFTImage_init_ok:
  assumes "0 < h" "0 < w"
  shows "\<exists>fr. rfft2d_freqs h w = Inr fr \<and> names fr = [None, None] \<and>
           shape fr = [h, min (w div 2 + (if w mod 2 = 1 then 2 else 1)) w] \<and>
           length (data fr) = h * min (w div 2 + (if w mod 2 = 1 then 2 else 1)) w \<and>
           FFTImage_init rnd [h, w] c =
              Inr \<lparr>size_hw = [h, w],
                fourier_coeffs = map_data (\<lambda>v. v / 50) (randn rnd [c, h, w div 2 + 1, 2]),
                spectrum_scale = unsqueeze_both
                  (map_data (\<lambda>v. v * sqrt (real (h * w)))
                     (map_data (\<lambda>f. 1 / max f (1 / real (max h w))) fr))\<rparr>"
proof -
  obtain fr where fr: "rfft2d_freqs h w = Inr fr" "names fr = [None, None]"
      "shape fr = [h, min (w div 2 + (if w mod 2 = 1 then 2 else 1)) w]"
      "length (data fr) = h * min (w div 2 + (if w mod 2 = 1 then 2 else 1)) w"
    using rfft2d_freqs_ok [OF assms] by blast
  have "FFTImage_init rnd [h, w] c =
              Inr \<lparr>size_hw = [h, w],
                fourier_coeffs = map_data (\<lambda>v. v / 50) (randn rnd [c, h, w div 2 + 1, 2]),
                spectrum_scale = unsqueeze_both
                  (map_data (\<lambda>v. v * sqrt (real (h * w)))
                     (map_data (\<lambda>f. 1 / max f (1 / real (max h w))) fr))\<rparr>"
    using assms fr(1) by (simp add: FFTImage_init_def and_then_def Let_def)
  with fr show ?thesis
    by blast
qed

lemma kept_columns:
  assumes "0 < (w::nat)"
  shows "min (w div 2 + (if w mod 2 = 1 then 2 else 1)) w =
           (if w mod 2 = 1 \<and> 3 \<le> w then w div 2 + 2 else w div 2 + 1)"
  using assms by (auto simp: min_def)

subsection \<open>The spectrum scale\<close>

text \<open>
  C2, as the code has it.  For positive height and width the constructor succeeds and
  the stored spectrum scale has shape (1, height, k, 1), where k is \<open>width div 2 + 1\<close>
  when the width is even or 1, and \<open>width div 2 + 2\<close> when the width is odd and at
  least 3 (the additional frequency \<open>rfft2d_freqs\<close> keeps on odd widths).
\<close>

theorem spectrum_scale_shape:
  assumes "0 < h" "0 < w"
  shows "\<exists>st. FFTImage_init rnd [h, w] c = Inr st \<and>
              shape (spectrum_scale st) =
                [1, h, (if w mod 2 = 1 \<and> 3 \<le> w then w div 2 + 2 else w div 2 + 1), 1]"
proof -
  obtain fr where fr: "shape fr = [h, min (w div 2 + (if w mod 2 = 1 then 2 else 1)) w]"
      "FFTImage_init rnd [h, w] c =
              Inr \<lparr>size_hw = [h, w],
                fourier_coeffs = map_data (\<lambda>v. v / 50) (randn rnd [c, h, w div 2 + 1, 2]),
                spectrum_scale = unsqueeze_both
                  (map_data (\<lambda>v. v * sqrt (real (h * w)))
                     (map_data (\<lambda>f. 1 / max f (1 / real (max h w))) fr))\<rparr>"
    using FFTImage_init_ok [OF assms, of rnd c] by blast
  show ?thesis
    using fr kept_columns [OF assms(2)] by (simp add: unsqueeze_both_def map_data_def)
qed

theorem spectrum_scale_shape_witness:
  "(0::nat) < 2 \<and> (0::nat) < 4 \<and> (0::nat) < 5
   \<and> and_then (FFTImage_init (\<lambda>i. 0) [2, 4] 3) (\<lambda>st. Inr (shape (spectrum_scale st)))
       = Inr [1, 2, 3, 1]
   \<and> and_then (FFTImage_init (\<lambda>i. 0) [2, 5] 3) (\<lambda>st. Inr (shape (spectrum_scale st)))
       = Inr [1, 2, 4, 1]"
proof -
  have p2: "(0::nat) < 2" and p4: "(0::nat) < 4" and p5: "(0::nat) < 5"
    by simp_all
  have even: "and_then (FFTImage_init (\<lambda>i. 0) [2, 4] 3) (\<lambda>st. Inr (shape (spectrum_scale st)))
       = Inr [1, 2, 3, 1]"
    using spectrum_scale_shape [OF p2 p4, of "\<lambda>i. 0" 3] by (auto simp: and_then_def)
  have odd: "and_then (FFTImage_init (\<lambda>i. 0) [2, 5] 3) (\<lambda>st. Inr (shape (spectrum_scale st)))
       = Inr [1, 2, 4, 1]"
    using spectrum_scale_shape [OF p2 p5, of "\<lambda>i. 0" 3] by (auto simp: and_then_def)
  show ?thesis
    using p2 p4 p5 even odd by blast
qed

text \<open>
  C2 as stated fails on an odd width of at least 3: for size (1, 3) the stored spectrum
  scale has shape (1, 1, 3, 1), not (1, 1, 3 div 2 + 1, 1) = (1, 1, 2, 1).
\<close>

theorem spectrum_scale_shape_counterexample:
  "and_then (FFTImage_init (\<lambda>i. 0) [1, 3] 3) (\<lambda>st. Inr (shape (spectrum_scale st)))
     = Inr [1, 1, 3, 1]
   \<and> [1, 1, 3, 1] \<noteq> [1, 1, 3 div 2 + 1, 1 :: nat]"
proof -
  have p1: "(0::nat) < 1" and p3: "(0::nat) < 3"
    by simp_all
  obtain fr where fr: "shape fr = [1, min (3 div 2 + (if (3::nat) mod 2 = 1 then 2 else 1)) 3]"
      "FFTImage_init (\<lambda>i. 0) [1, 3] 3 =
         Inr \<lparr>size_hw = [1, 3],
              fourier_coeffs = map_data (\<lambda>v. v / 50) (randn (\<lambda>i. 0) [3, 1, 3 div 2 + 1, 2]),
              spectrum_scale = unsqueeze_both
                (map_data (\<lambda>v. v * sqrt (real (1 * 3)))
                   (map_data (\<lambda>f. 1 / max f (1 / real (max 1 3))) fr))\<rparr>"
    using FFTImage_init_ok [OF p1 p3, of "\<lambda>i. 0" 3] by blast
  have "shape fr = [1, 3]"
    using fr(1) by simp
  then show ?thesis
    using fr(2) by (simp add: and_then_def unsqueeze_both_def map_data_def)
qed

text \<open>
  C8.  For positive height and width the constructor succeeds and every entry of the
  stored spectrum scale is \<open>1 / max(f, 1 / max(height, width)) * sqrt(height * width)\<close>
  for the entry \<open>f\<close> of the frequency grid at its place.  The divisor is positive, so
  no entry is a division by zero; every entry is positive and at most
  \<open>max(height, width) * sqrt(height * width)\<close>; and there is at least one entry.
\<close>

theorem spectrum_scale_positive:
  assumes "0 < h" "0 < w"
  shows "\<exists>st fr. FFTImage_init rnd [h, w] c = Inr st \<and> rfft2d_freqs h w = Inr fr \<and>
           data (spectrum_scale st) =
             map (\<lambda>f. 1 / max f (1 / real (max h w)) * sqrt (real (h * w))) (data fr) \<and>
           data (spectrum_scale st) \<noteq> [] \<and>
           (\<forall>f \<in> set (data fr). 0 < max f (1 / real (max h w))) \<and>
           (\<forall>v \<in> set (data (spectrum_scale st)).
              0 < v \<and> v \<le> real (max h w) * sqrt (real (h * w)))"
proof -
  obtain fr where fr: "rfft2d_freqs h w = Inr fr"
      "length (data fr) = h * min (w div 2 + (if w mod 2 = 1 then 2 else 1)) w"
      "FFTImage_init rnd [h, w] c =
              Inr \<lparr>size_hw = [h, w],
                fourier_coeffs = map_data (\<lambda>v. v / 50) (randn rnd [c, h, w div 2 + 1, 2]),
                spectrum_scale = unsqueeze_both
                  (map_data (\<lambda>v. v * sqrt (real (h * w)))
                     (map_data (\<lambda>f. 1 / max f (1 / real (max h w))) fr))\<rparr>"
    using FFTImage_init_ok [OF assms, of rnd c] by blast
  define st where "st = \<lparr>size_hw = [h, w],
                fourier_coeffs = map_data (\<lambda>v. v / 50) (randn rnd [c, h, w div 2 + 1, 2]),
                spectrum_scale = unsqueeze_both
                  (map_data (\<lambda>v. v * sqrt (real (h * w)))
                     (map_data (\<lambda>f. 1 / max f (1 / real (max h w))) fr))\<rparr>"
  have d: "data (spectrum_scale st) =
             map (\<lambda>f. 1 / max f (1 / real (max h w)) * sqrt (real (h * w))) (data fr)"
    by (simp add: st_def unsqueeze_both_def map_data_def)
  have m: "0 < real (max h w)"
    using assms by simp
  have s: "0 < sqrt (real (h * w))"
    using assms by simp
  have floor_pos: "0 < max f (1 / real (max h w))" for f :: real
    using m by (simp add: less_max_iff_disj)
  have "0 < min (w div 2 + (if w mod 2 = 1 then 2 else 1)) w"
    using assms(2) by (auto simp: min_def)
  then have "0 < length (data fr)"
    using assms(1) fr(2) by simp
  then have ne: "data (spectrum_scale st) \<noteq> []"
    using d by auto
  have bound: "0 < 1 / max f (1 / real (max h w)) * sqrt (real (h * w)) \<and>
        1 / max f (1 / real (max h w)) * sqrt (real (h * w))
          \<le> real (max h w) * sqrt (real (h * w))"
    for f :: real
  proof -
    have ge: "1 / real (max h w) \<le> max f (1 / real (max h w))"
      by simp
    have "1 / max f (1 / real (max h w)) \<le> 1 / (1 / real (max h w))"
      using ge m by (intro divide_left_mono) (simp_all add: floor_pos)
    then have "1 / max f (1 / real (max h w)) \<le> real (max h w)"
      by simp
    then have "1 / max f (1 / real (max h w)) * sqrt (real (h * w))
        \<le> real (max h w) * sqrt (real (h * w))"
      using s by (intro mult_right_mono) simp_all
    moreover have "0 < 1 / max f (1 / real (max h w)) * sqrt (real (h * w))"
      using floor_pos [of f] s by simp
    ultimately show ?thesis
      by simp
  qed
  show ?thesis
    using fr(1,3) d ne floor_pos bound unfolding st_def [symmetric]
    by (intro exI [of _ st] exI [of _ fr]) auto
qed

theorem spectrum_scale_positive_witness:
  "(0::nat) < 1 \<and> (0::nat) < 2
   \<and> (\<exists>st. FFTImage_init (\<lambda>i. 0) [1, 2] 3 = Inr st \<and> data (spectrum_scale st) \<noteq> [] \<and>
           list_all (\<lambda>v. 0 < v \<and> v \<le> 2 * sqrt 2) (data (spectrum_scale st)))"
proof -
  have p1: "(0::nat) < 1" and p2: "(0::nat) < 2"
    by simp_all
  obtain st where st: "FFTImage_init (\<lambda>i. 0) [1, 2] 3 = Inr st" "data (spectrum_scale st) \<noteq> []"
      "\<forall>v \<in> set (data (spectrum_scale st)). 0 < v \<and> v \<le> real (max 1 2) * sqrt (real (1 * 2))"
    using spectrum_scale_positive [OF p1 p2, of "\<lambda>i. 0" 3] by blast
  have "list_all (\<lambda>v. 0 < v \<and> v \<le> 2 * sqrt 2) (data (spectrum_scale st))"
    using st(3) by (simp add: list_all_iff)
  then show ?thesis
    using p1 p2 st(1,2) by blast
qed

subsection \<open>FFTImage.forward and PixelImage.forward\<close>

text \<open>
  C4.  The frequency parameterization does not return the construction shape on an odd
  width of at least 3: the coefficients have \<open>width div 2 + 1\<close> columns and the spectrum
  scale \<open>width div 2 + 2\<close>, so their product in \<open>forward\<close> does not broadcast and the call
  raises, whatever the coefficients and whatever the inverse transform computes.
\<close>

theorem FFTImage_forward_odd_width_fails:
  assumes "0 < h" "w mod 2 = 1" "3 \<le> w"
  shows "and_then (FFTImage_init rnd [h, w] c) (FFTImage_forward vals) = Inl ShapeMismatch"
proof -
  have w: "0 < w"
    using assms(3) by simp
  obtain fr where fr: "shape fr = [h, min (w div 2 + (if w mod 2 = 1 then 2 else 1)) w]"
      "FFTImage_init rnd [h, w] c =
              Inr \<lparr>size_hw = [h, w],
                fourier_coeffs = map_data (\<lambda>v. v / 50) (randn rnd [c, h, w div 2 + 1, 2]),
                spectrum_scale = unsqueeze_both
                  (map_data (\<lambda>v. v * sqrt (real (h * w)))
                     (map_data (\<lambda>f. 1 / max f (1 / real (max h w))) fr))\<rparr>"
    using FFTImage_init_ok [OF assms(1) w, of rnd c] by blast
  have cols: "min (w div 2 + (if w mod 2 = 1 then 2 else 1)) w = w div 2 + 2"
    using assms(2,3) by (auto simp: min_def)
  have "broadcast_op (*) (map_data (\<lambda>v. v / 50) (randn rnd [c, h, w div 2 + 1, 2]))
          (unsqueeze_both (map_data (\<lambda>v. v * sqrt (real (h * w)))
                       (map_data (\<lambda>f. 1 / max f (1 / real (max h w))) fr))) = Inl ShapeMismatch"
    using broadcast_odd_width_fails [OF assms(2,3), of c h] fr(1) cols
    by (simp add: broadcast_op_def map_data_def randn_def unsqueeze_both_def)
  then show ?thesis
    by (simp add: fr(2) and_then_def FFTImage_forward_def Let_def)
qed

theorem FFTImage_forward_odd_width_fails_witness:
  "(0::nat) < 1 \<and> (3::nat) mod 2 = 1 \<and> (3::nat) \<le> 3
   \<and> and_then (FFTImage_init (\<lambda>i. 0) [1, 3] 3) (FFTImage_forward (\<lambda>t. [])) = Inl ShapeMismatch"
proof -
  have p: "(0::nat) < 1" and odd: "(3::nat) mod 2 = 1" and three: "(3::nat) \<le> 3"
    by simp_all
  show ?thesis
    using p odd three FFTImage_forward_odd_width_fails [OF p odd three, of "\<lambda>i. 0" 3 "\<lambda>t. []"]
    by blast
qed

text \<open>
  On an even width the shapes fit: the product broadcasts, the inverse transform
  returns width \<open>2 * (width div 2 + 1 - 1) = width\<close>, and \<open>forward\<close> returns a tensor of
  shape (channels, height, width) named (C, H, W).
\<close>

lemma FFTImage_forward_even_width:
  assumes "0 < h" "0 < w" "w mod 2 = 0"
  shows "\<exists>t. and_then (FFTImage_init rnd [h, w] c) (FFTImage_forward vals) = Inr t \<and>
             shape t = [c, h, w] \<and> names t = [Some ''C'', Some ''H'', Some ''W'']"
proof -
  obtain fr where fr: "shape fr = [h, min (w div 2 + (if w mod 2 = 1 then 2 else 1)) w]"
      "names fr = [None, None]"
      "FFTImage_init rnd [h, w] c =
              Inr \<lparr>size_hw = [h, w],
                fourier_coeffs = map_data (\<lambda>v. v / 50) (randn rnd [c, h, w div 2 + 1, 2]),
                spectrum_scale = unsqueeze_both
                  (map_data (\<lambda>v. v * sqrt (real (h * w)))
                     (map_data (\<lambda>f. 1 / max f (1 / real (max h w))) fr))\<rparr>"
    using FFTImage_init_ok [OF assms(1,2), of rnd c] by blast
  define coeffs where "coeffs = map_data (\<lambda>v. v / 50) (randn rnd [c, h, w div 2 + 1, 2])"
  define scale where "scale = unsqueeze_both (map_data (\<lambda>v. v * sqrt (real (h * w)))
                       (map_data (\<lambda>f. 1 / max f (1 / real (max h w))) fr))"
  have cols: "min (w div 2 + (if w mod 2 = 1 then 2 else 1)) w = w div 2 + 1"
    using assms(2,3) by (auto simp: min_def)
  have c: "shape coeffs = [c, h, w div 2 + 1, 2]"
      "names coeffs = replicate (length (shape coeffs)) None"
    by (simp_all add: coeffs_def map_data_def randn_def)
  have s: "shape scale = [1, h, w div 2 + 1, 1]"
      "names scale = replicate (length (shape scale)) None"
    using fr(1,2) cols by (simp_all add: scale_def map_data_def unsqueeze_both_def)
  have bs: "broadcast_shapes (shape coeffs) (shape scale) = Some [c, h, w div 2 + 1, 2]"
    unfolding c(1) s(1) by (rule broadcast_coeffs_scale)
  obtain sp where sp: "broadcast_op (*) coeffs scale = Inr sp" "shape sp = [c, h, w div 2 + 1, 2]"
    using broadcast_op_unnamed [OF bs c(2) s(2), of "(*)"] by blast
  have twice: "2 * (w div 2) = w"
    using assms(3) by presburger
  obtain full where full: "irfft vals sp = Inr full" "shape full = [c, h, w]"
      "names full = [None, None, None]"
    using sp(2) twice by (simp add: irfft_def Let_def)
  obtain out where out: "crop_hw h w full = Inr out" "shape out = [c, h, w]"
      "names out = [None, None, None]"
    using full by (simp add: crop_hw_def Let_def)
  have "refine_names [''C'', ''H'', ''W''] False out
      = Inr (out\<lparr>names := [Some ''C'', Some ''H'', Some ''W'']\<rparr>)"
    using out by (simp add: refine_names_def)
  then have "FFTImage_forward vals \<lparr>size_hw = [h, w], fourier_coeffs = coeffs, spectrum_scale = scale\<rparr>
        = Inr (out\<lparr>names := [Some ''C'', Some ''H'', Some ''W'']\<rparr>)"
    using sp(1) full(1) out(1) by (simp add: FFTImage_forward_def Let_def and_then_def)
  then show ?thesis
    using out(2) by (simp add: fr(3) and_then_def coeffs_def scale_def)
qed

text \<open>The pixel parameterization returns what the constructor stored.\<close>

lemma PixelImage_forward_shape:
  "\<exists>t. and_then (PixelImage_init rnd (Some [h, w]) (Some c) None) PixelImage_forward = Inr t \<and>
       shape t = [c, h, w]"
  by (simp add: PixelImage_init_def PixelImage_forward_def and_then_def map_data_def randn_def)

subsection \<open>set_image\<close>

text \<open>
  C3.  \<open>FFTImage.set_image\<close> does not store the quotient.  On an instance of even width
  and an image of the construction shape the transform and the elementwise division
  succeed, and the assignment of their result, a plain tensor, to the registered
  parameter \<open>fourier_coeffs\<close> raises \<open>TypeError\<close>: the coefficients are not replaced.
\<close>

theorem FFTImage_set_image_TypeError:
  assumes "0 < h" "0 < w" "w mod 2 = 0"
    and "FFTImage_init rnd [h, w] c = Inr self"
    and "shape img = [c, h, w]"
  shows "FFTImage_set_image vals self img = Inl TypeError"
proof -
  obtain fr where fr: "shape fr = [h, min (w div 2 + (if w mod 2 = 1 then 2 else 1)) w]"
      "names fr = [None, None]"
      "FFTImage_init rnd [h, w] c =
              Inr \<lparr>size_hw = [h, w],
                fourier_coeffs = map_data (\<lambda>v. v / 50) (randn rnd [c, h, w div 2 + 1, 2]),
                spectrum_scale = unsqueeze_both
                  (map_data (\<lambda>v. v * sqrt (real (h * w)))
                     (map_data (\<lambda>f. 1 / max f (1 / real (max h w))) fr))\<rparr>"
    using FFTImage_init_ok [OF assms(1,2), of rnd c] by blast
  have cols: "min (w div 2 + (if w mod 2 = 1 then 2 else 1)) w = w div 2 + 1"
    using assms(2,3) by (auto simp: min_def)
  have s: "shape (spectrum_scale self) = [1, h, w div 2 + 1, 1]"
      "names (spectrum_scale self) = replicate (length (shape (spectrum_scale self))) None"
    using fr assms(4) cols by (auto simp: map_data_def unsqueeze_both_def)
  obtain coeffs where coeffs: "rfft vals img = Inr coeffs" "shape coeffs = [c, h, w div 2 + 1, 2]"
      "names coeffs = replicate (length (shape coeffs)) None"
    using assms(5) by (simp add: rfft_def)
  have bs: "broadcast_shapes (shape coeffs) (shape (spectrum_scale self))
      = Some [c, h, w div 2 + 1, 2]"
    unfolding coeffs(2) s(1) by (rule broadcast_coeffs_scale)
  obtain q where q: "broadcast_op (/) coeffs (spectrum_scale self) = Inr q"
    using broadcast_op_unnamed [OF bs coeffs(3) s(2), of "(/)"] by blast
  show ?thesis
    using coeffs(1) q by (simp add: FFTImage_set_image_def and_then_def setattr_parameter_def)
qed

theorem FFTImage_set_image_TypeError_witness:
  "(0::nat) < 2 \<and> (2::nat) mod 2 = 0
   \<and> and_then (FFTImage_init (\<lambda>i. 0) [2, 2] 3) (\<lambda>self.
        FFTImage_set_image (\<lambda>t. replicate 24 0) self
          \<lparr>names = [None, None, None], shape = [3, 2, 2], data = replicate 12 (1 / 2)\<rparr>)
       = Inl TypeError"
proof -
  have p: "(0::nat) < 2" and even: "(2::nat) mod 2 = 0"
    by simp_all
  obtain self where self: "FFTImage_init (\<lambda>i. 0) [2, 2] 3 = Inr self"
    using FFTImage_init_ok [OF p p, of "\<lambda>i. 0" 3] by blast
  have "FFTImage_set_image (\<lambda>t. replicate 24 0) self
          \<lparr>names = [None, None, None], shape = [3, 2, 2], data = replicate 12 (1 / 2)\<rparr>
       = Inl TypeError"
    using FFTImage_set_image_TypeError [OF p p even self] by simp
  then show ?thesis
    using p even self by (simp add: and_then_def)
qed

text \<open>
  On no instance and no image does \<open>FFTImage.set_image\<close> return a new state: it raises
  in the transform, in the division or in the assignment.
\<close>

lemma FFTImage_set_image_never_stores:
  "\<exists>e. FFTImage_set_image vals self img = Inl e"
  by (simp add: FFTImage_set_image_def and_then_def setattr_parameter_def split: sum.splits)

text \<open>\<open>PixelImage.set_image\<close> wraps the image in a parameter, and the assignment goes through.\<close>

lemma PixelImage_set_image_stores:
  "PixelImage_set_image self img = Inr (self\<lparr>image := img\<rparr>)"
  by (simp add: PixelImage_set_image_def and_then_def setattr_parameter_def)

subsection \<open>logit\<close>

lemma clamp_inside:
  assumes "0 < eps" "eps < 1"
  shows "0 < torch_clamp eps (1 - eps) v \<and> torch_clamp eps (1 - eps) v < 1"
  using assms by (auto simp: torch_clamp_def min_def max_def)

lemma clamp_low:
  assumes "0 < eps" "eps < 1" "v \<le> eps"
  shows "torch_clamp eps (1 - eps) v = min eps (1 - eps)"
  using assms by (simp add: torch_clamp_def max_def)

lemma clamp_high:
  assumes "0 < eps" "eps < 1" "1 - eps \<le> v"
  shows "torch_clamp eps (1 - eps) v = 1 - eps"
  using assms by (simp add: torch_clamp_def min_def max_def)

lemma logit_elem_finite:
  assumes "0 < c" "c < 1"
  shows "float_log (float_div c (1 - c)) = Finite (ln (c / (1 - c)))"
proof -
  have "0 < c / (1 - c)"
    using assms by simp
  then show ?thesis
    using assms by (simp add: float_div_def float_log_def)
qed

text \<open>
  In the model over the reals: for \<open>0 < epsilon < 1\<close> and a tensor with at least one
  element, \<open>logit\<close> returns, and every entry of the result is the finite logarithm of
  \<open>c / (1 - c)\<close> for the clamped input \<open>c\<close>.
\<close>

lemma logit_finite:
  assumes "0 < eps" "eps < 1" "data p \<noteq> []"
  shows "logit p eps =
           Inr (map_data (\<lambda>v. Finite (ln (torch_clamp eps (1 - eps) v /
                                          (1 - torch_clamp eps (1 - eps) v)))) p)"
proof -
  let ?c = "torch_clamp eps (1 - eps)"
  let ?q = "map_data ?c p"
  have ne: "data ?q \<noteq> []"
    using assms(3) by (simp add: map_data_def)
  have lo: "0 \<le> Min (set (data ?q))"
    using ne clamp_inside [OF assms(1,2)] by (auto simp: map_data_def less_imp_le)
  have hi: "Max (set (data ?q)) < 1"
    using ne clamp_inside [OF assms(1,2)] by (auto simp: map_data_def)
  have "map_data (\<lambda>v. float_log (float_div v (1 - v))) ?q =
        map_data (\<lambda>v. Finite (ln (?c v / (1 - ?c v)))) p"
    using clamp_inside [OF assms(1,2)] by (simp add: map_data_def logit_elem_finite)
  then show ?thesis
    using ne lo hi by (simp add: logit_def Let_def)
qed

lemma logit_scalar:
  assumes "0 < eps" "eps < 1" "torch_clamp eps (1 - eps) v = c"
  shows "logit (scalar_tensor v) eps = Inr (scalar_tensor (Finite (ln (c / (1 - c)))))"
proof -
  have "data (scalar_tensor v) \<noteq> []"
    by (simp add: scalar_tensor_def)
  from logit_finite [OF assms(1,2) this] show ?thesis
    using assms(3) by (simp add: scalar_tensor_def map_data_def)
qed

text \<open>
  C5.  For an \<open>epsilon\<close> from \<open>1 / 2 ^ 24\<close> to \<open>1 / 2\<close>, the range on which float32
  keeps both clamp bounds strictly between 0 and 1: \<open>logit\<close> of 0 equals \<open>logit\<close> of
  \<open>epsilon\<close> and \<open>logit\<close> of 1 equals \<open>logit\<close> of \<open>1 - epsilon\<close>; both calls return,
  without an assertion failure, and both results are finite numbers, not an infinity and
  not NaN.
\<close>

theorem logit_boundary_clamp:
  assumes "1 / 2 ^ 24 \<le> eps" "eps \<le> 1 / 2"
  shows "logit (scalar_tensor 0) eps = logit (scalar_tensor eps) eps \<and>
         logit (scalar_tensor 1) eps = logit (scalar_tensor (1 - eps)) eps \<and>
         logit (scalar_tensor 0) eps = Inr (scalar_tensor (Finite (ln (eps / (1 - eps))))) \<and>
         logit (scalar_tensor 1) eps = Inr (scalar_tensor (Finite (ln ((1 - eps) / eps))))"
proof -
  have "(0::real) < 1 / 2 ^ 24"
    by simp
  then have pos: "0 < eps"
    using assms(1) by (rule less_le_trans)
  have below: "eps < 1"
    using assms(2) by simp
  have lo: "min eps (1 - eps) = eps"
    using assms(2) by (simp add: min_def)
  have z: "logit (scalar_tensor 0) eps = Inr (scalar_tensor (Finite (ln (eps / (1 - eps)))))"
  proof -
    have "torch_clamp eps (1 - eps) 0 = eps"
      using clamp_low [OF pos below, of 0] pos lo by simp
    then show ?thesis
      by (rule logit_scalar [OF pos below])
  qed
  have e: "logit (scalar_tensor eps) eps = Inr (scalar_tensor (Finite (ln (eps / (1 - eps)))))"
  proof -
    have "torch_clamp eps (1 - eps) eps = eps"
      using clamp_low [OF pos below, of eps] lo by simp
    then show ?thesis
      by (rule logit_scalar [OF pos below])
  qed
  have o: "logit (scalar_tensor 1) eps
      = Inr (scalar_tensor (Finite (ln ((1 - eps) / (1 - (1 - eps))))))"
  proof -
    have "torch_clamp eps (1 - eps) 1 = 1 - eps"
      using clamp_high [OF pos below, of 1] pos by simp
    then show ?thesis
      by (rule logit_scalar [OF pos below])
  qed
  have oe: "logit (scalar_tensor (1 - eps)) eps
      = Inr (scalar_tensor (Finite (ln ((1 - eps) / (1 - (1 - eps))))))"
  proof -
    have "torch_clamp eps (1 - eps) (1 - eps) = 1 - eps"
      using clamp_high [OF pos below, of "1 - eps"] by simp
    then show ?thesis
      by (rule logit_scalar [OF pos below])
  qed
  show ?thesis
    using z e o oe by simp
qed

theorem logit_boundary_clamp_witness:
  "(1::real) / 2 ^ 24 \<le> 1 / 10000 \<and> (1::real) / 10000 \<le> 1 / 2 \<and>
   logit (scalar_tensor 0) (1 / 10000) = logit (scalar_tensor (1 / 10000)) (1 / 10000) \<and>
   logit (scalar_tensor 1) (1 / 10000) = logit (scalar_tensor (1 - 1 / 10000)) (1 / 10000) \<and>
   logit (scalar_tensor 0) (1 / 10000) = Inr (scalar_tensor (Finite (ln (1 / 9999)))) \<and>
   logit (scalar_tensor 1) (1 / 10000) = Inr (scalar_tensor (Finite (ln 9999)))"
proof -
  have a: "(1::real) / 2 ^ 24 \<le> 1 / 10000" and b: "(1::real) / 10000 \<le> 1 / 2"
    by simp_all
  note t = logit_boundary_clamp [OF a b]
  have low: "logit (scalar_tensor 0) (1 / 10000) = Inr (scalar_tensor (Finite (ln (1 / 9999))))"
    using t [THEN conjunct2, THEN conjunct2, THEN conjunct1] by simp
  have high: "logit (scalar_tensor 1) (1 / 10000) = Inr (scalar_tensor (Finite (ln 9999)))"
    using t [THEN conjunct2, THEN conjunct2, THEN conjunct2] by simp
  show ?thesis
    using a b t [THEN conjunct1] t [THEN conjunct2, THEN conjunct1] low high by blast
qed

subsection \<open>PixelImage construction\<close>


end
